theory Spec2Isabelle
  imports Complex_Main
begin

section \<open>JavaScript numbers\<close>

text \<open>
  A JavaScript number is an IEEE double: a finite value, one of the two infinities, or
  NaN. Finite values are modelled as reals: comparisons of finite doubles are exact, so
  every comparison of the source is modelled exactly; the arithmetic of the derived
  percentages is modelled without rounding, overflow or a signed zero.
\<close>

datatype jsnum = NaN | NegInfinity | Fin real | Infinity

text \<open>The relational operators: every comparison with NaN is false.\<close>

fun js_lt :: "jsnum \<Rightarrow> jsnum \<Rightarrow> bool" where
  "js_lt NaN _ = False"
| "js_lt _ NaN = False"
| "js_lt (Fin x) (Fin y) = (x < y)"
| "js_lt _ NegInfinity = False"
| "js_lt NegInfinity _ = True"
| "js_lt Infinity _ = False"
| "js_lt _ Infinity = True"

definition js_gt :: "jsnum \<Rightarrow> jsnum \<Rightarrow> bool" where
  "js_gt a b = js_lt b a"

definition js_le :: "jsnum \<Rightarrow> jsnum \<Rightarrow> bool" where
  "js_le a b = (a \<noteq> NaN \<and> b \<noteq> NaN \<and> \<not> js_lt b a)"

definition js_ge :: "jsnum \<Rightarrow> jsnum \<Rightarrow> bool" where
  "js_ge a b = js_le b a"

definition isFinite :: "jsnum \<Rightarrow> bool" where
  "isFinite a = (case a of Fin _ \<Rightarrow> True | _ \<Rightarrow> False)"

definition inf_of :: "bool \<Rightarrow> jsnum" where
  "inf_of negative = (if negative then NegInfinity else Infinity)"

fun js_sub :: "jsnum \<Rightarrow> jsnum \<Rightarrow> jsnum" where
  "js_sub NaN _ = NaN"
| "js_sub _ NaN = NaN"
| "js_sub (Fin x) (Fin y) = Fin (x - y)"
| "js_sub (Fin x) Infinity = NegInfinity"
| "js_sub (Fin x) NegInfinity = Infinity"
| "js_sub Infinity Infinity = NaN"
| "js_sub NegInfinity NegInfinity = NaN"
| "js_sub Infinity _ = Infinity"
| "js_sub NegInfinity _ = NegInfinity"

fun js_mul :: "jsnum \<Rightarrow> jsnum \<Rightarrow> jsnum" where
  "js_mul NaN _ = NaN"
| "js_mul _ NaN = NaN"
| "js_mul (Fin x) (Fin y) = Fin (x * y)"
| "js_mul (Fin x) b = (if x = 0 then NaN else inf_of ((x < 0) \<noteq> (b = NegInfinity)))"
| "js_mul a (Fin y) = (if y = 0 then NaN else inf_of ((a = NegInfinity) \<noteq> (y < 0)))"
| "js_mul a b = inf_of ((a = NegInfinity) \<noteq> (b = NegInfinity))"

fun js_div :: "jsnum \<Rightarrow> jsnum \<Rightarrow> jsnum" where
  "js_div NaN _ = NaN"
| "js_div _ NaN = NaN"
| "js_div (Fin x) (Fin y) =
     (if y \<noteq> 0 then Fin (x / y)
      else if x = 0 then NaN else inf_of (x < 0))"
| "js_div (Fin x) _ = Fin 0"
| "js_div a (Fin y) = inf_of ((a = NegInfinity) \<noteq> (y < 0))"
| "js_div _ _ = NaN"

text \<open>ToBoolean on a number: zero and NaN are falsy.\<close>

definition truthyNum :: "jsnum \<Rightarrow> bool" where
  "truthyNum a = (a \<noteq> Fin 0 \<and> a \<noteq> NaN)"

section \<open>Parsed JSON values\<close>

datatype json =
    JNull
  | JBool bool
  | JNum jsnum
  | JStr string
  | JArr "json list"
  | JObj "(string \<times> json) list"

datatype js_error = FetchFailed | SyntaxError | TypeError

text \<open>ToBoolean on a parsed JSON value.\<close>

fun truthy :: "json \<Rightarrow> bool" where
  "truthy JNull = False"
| "truthy (JBool b) = b"
| "truthy (JNum n) = truthyNum n"
| "truthy (JStr s) = (s \<noteq> [])"
| "truthy (JArr _) = True"
| "truthy (JObj _) = True"

text \<open>
  Reading the property \<open>k\<close> of a value, \<open>v.k\<close>: on \<open>null\<close> it throws a TypeError, on an
  object it gives the member (the last one, when the text repeated the key) or
  \<open>undefined\<close> (here \<open>None\<close>). The keys read by the client (\<open>data\<close>, \<open>attributes\<close>,
  \<open>ohlcv_list\<close>) are on no prototype, so on every other value the result is \<open>undefined\<close>.
\<close>

fun getProp :: "json \<Rightarrow> string \<Rightarrow> js_error + json option" where
  "getProp JNull k = Inl TypeError"
| "getProp (JObj kvs) k = Inr (map_of (rev kvs) k)"
| "getProp _ k = Inr None"

text \<open>Optional chaining, \<open>v?.k\<close>: \<open>undefined\<close> when \<open>v\<close> is \<open>undefined\<close> or \<open>null\<close>.\<close>

fun optChain :: "json option \<Rightarrow> string \<Rightarrow> json option" where
  "optChain None k = None"
| "optChain (Some JNull) k = None"
| "optChain (Some v) k = (case getProp v k of Inr r \<Rightarrow> r | Inl _ \<Rightarrow> None)"

text \<open>\<open>v || []\<close>.\<close>

fun orEmptyArray :: "json option \<Rightarrow> json" where
  "orEmptyArray None = JArr []"
| "orEmptyArray (Some v) = (if truthy v then v else JArr [])"

section \<open>The environment\<close>

text \<open>
  What the code reads from and writes to outside its arguments: the wall clock
  (\<open>Date.now()\<close>), the date parser (\<open>new Date(s).getTime()\<close>, NaN for a string that is no
  date), the network (\<open>fetch\<close> followed by \<open>response.json()\<close>), the console and the
  trace of the requests sent.
\<close>

text \<open>
  The outcome of \<open>fetch(url)\<close>: the promise rejects, or it resolves to a response with a
  status code and a body; the body is \<open>None\<close> when \<open>response.json()\<close> rejects (the text is
  no JSON) and the parsed value otherwise.
\<close>

datatype fetch_result = Rejected | Response nat "json option"

record world =
  dateNow :: jsnum
  dateGetTime :: "string \<Rightarrow> jsnum"
  fetch :: "string \<Rightarrow> fetch_result"
  console :: "(string \<times> js_error) list"
  requests :: "string list"

section \<open>API services\<close>

definition geckoterminal_baseUrl :: string where
  "geckoterminal_baseUrl = ''https://api.geckoterminal.com/api/v2''"

text \<open>A non-negative integer inside a template literal: its decimal digits.\<close>

fun decimal :: "nat \<Rightarrow> string" where
  "decimal n =
     (if n < 10 then [''0123456789'' ! n]
      else decimal (n div 10) @ [''0123456789'' ! (n mod 10)])"

declare decimal.simps [simp del]

definition ohlcvUrl :: "string \<Rightarrow> string \<Rightarrow> string \<Rightarrow> nat \<Rightarrow> nat \<Rightarrow> string" where
  "ohlcvUrl network poolAddress timeframe aggregate limit =
     geckoterminal_baseUrl @ ''/networks/'' @ network @ ''/pools/'' @ poolAddress
       @ ''/ohlcv/'' @ timeframe @ ''?aggregate='' @ decimal aggregate
       @ ''&limit='' @ decimal limit @ ''&currency=usd''"

text \<open>
  The body of the \<open>try\<close> block of \<open>GeckoTerminalAPI.getOHLCV\<close>: what it returns, or the
  error it throws. The status code of the response is not read.
\<close>

definition getOHLCV_try :: "fetch_result \<Rightarrow> js_error + json" where
  "getOHLCV_try r =
     (case r of
        Rejected \<Rightarrow> Inl FetchFailed
      | Response st body \<Rightarrow>
          (case body of
             None \<Rightarrow> Inl SyntaxError
           | Some data \<Rightarrow>
               (case getProp data ''data'' of
                  Inl e \<Rightarrow> Inl e
                | Inr d \<Rightarrow>
                    Inr (orEmptyArray (optChain (optChain d ''attributes'') ''ohlcv_list'')))))"

text \<open>
  \<open>GeckoTerminalAPI.getOHLCV\<close>: the request is sent, and whatever the \<open>try\<close> block throws
  is caught, written to the console and replaced by the empty array. The defaults of the
  last three parameters are left out: the one caller passes all five arguments.
\<close>

definition getOHLCV ::
  "world \<Rightarrow> string \<Rightarrow> string \<Rightarrow> string \<Rightarrow> nat \<Rightarrow> nat \<Rightarrow> json \<times> world" where
  "getOHLCV w network poolAddress timeframe aggregate limit =
     (let url = ohlcvUrl network poolAddress timeframe aggregate limit;
          w1 = w\<lparr>requests := requests w @ [url]\<rparr>
      in case getOHLCV_try (fetch w url) of
           Inr v \<Rightarrow> (v, w1)
         | Inl e \<Rightarrow> (JArr [], w1\<lparr>console := console w1 @ [(''GeckoTerminal OHLCV error:'', e)]\<rparr>))"

section \<open>Trade records\<close>

text \<open>
  The fields of the object returned under \<open>analysis\<close>, in the order of the source; the
  first four are the variables of the extremum scan.
\<close>

record extrema =
  minPrice :: jsnum
  maxPrice :: jsnum
  minTimestamp :: "jsnum option"
  maxTimestamp :: "jsnum option"

record analysis = extrema +
  pnlPercent :: "jsnum option"
  maxGainPercent :: jsnum
  maxDrawdownPercent :: jsnum
  capturedPercent :: "jsnum option"
  candleCount :: nat

text \<open>
  A trade as \<open>TradeInputForm.handleSubmit\<close> builds it; \<open>None\<close> is \<open>null\<close> (for \<open>analysis\<close>,
  also the absent field).
\<close>

record trade =
  trade_id :: jsnum
  tokenAddress :: string
  tokenSymbol :: string
  tokenName :: string
  poolAddress :: string
  dexId :: string
  chainId :: string
  buyPrice :: jsnum
  buyAmount :: jsnum
  buyMarketCap :: jsnum
  buyTimestamp :: string
  sellPrice :: "jsnum option"
  sellAmount :: "jsnum option"
  sellTimestamp :: "string option"
  trade_notes :: string
  status :: string
  createdAt :: string
  analysis :: "analysis option"

section \<open>Trade analysis\<close>

text \<open>
  A candle of the provider is an array \<open>[timestamp, open, high, low, close, volume]\<close>, the
  timestamp in seconds. Reading an array past its end gives \<open>undefined\<close>; the source uses
  the values it reads only as operands of \<open>*\<close>, \<open><\<close> and \<open>>\<close>, where \<open>undefined\<close> is
  NaN, and stores a value only after a comparison with it was true.
\<close>

type_synonym candle = "jsnum list"

definition idx :: "candle \<Rightarrow> nat \<Rightarrow> jsnum" where
  "idx candle i = (if i < length candle then candle ! i else NaN)"

definition candleTime :: "candle \<Rightarrow> jsnum" where
  "candleTime candle = js_mul (idx candle 0) (Fin 1000)"

definition buyTime :: "world \<Rightarrow> trade \<Rightarrow> jsnum" where
  "buyTime w t = dateGetTime w (buyTimestamp t)"

text \<open>\<open>sellTimestamp ? new Date(sellTimestamp).getTime() : Date.now()\<close>; the empty string is falsy.\<close>

definition sellTime :: "world \<Rightarrow> trade \<Rightarrow> jsnum" where
  "sellTime w t =
     (case sellTimestamp t of
        None \<Rightarrow> dateNow w
      | Some s \<Rightarrow> if s \<noteq> [] then dateGetTime w s else dateNow w)"

definition relevantCandles :: "world \<Rightarrow> trade \<Rightarrow> candle list \<Rightarrow> candle list" where
  "relevantCandles w t ohlcvData =
     filter (\<lambda>candle. js_ge (candleTime candle) (buyTime w t)
                    \<and> js_le (candleTime candle) (sellTime w t)) ohlcvData"

definition scanInit :: extrema where
  "scanInit = \<lparr>minPrice = Infinity, maxPrice = NegInfinity,
               minTimestamp = None, maxTimestamp = None\<rparr>"

text \<open>The callback of \<open>relevantCandles.forEach\<close>, on the four variables it assigns.\<close>

definition scanCandle :: "extrema \<Rightarrow> candle \<Rightarrow> extrema" where
  "scanCandle st candle =
     (let ts = idx candle 0; high = idx candle 2; low = idx candle 3;
          st1 = (if js_lt low (minPrice st)
                 then st\<lparr>minPrice := low, minTimestamp := Some (js_mul ts (Fin 1000))\<rparr>
                 else st)
      in if js_gt high (maxPrice st1)
         then st1\<lparr>maxPrice := high, maxTimestamp := Some (js_mul ts (Fin 1000))\<rparr>
         else st1)"

definition scanCandles :: "candle list \<Rightarrow> extrema" where
  "scanCandles cs = foldl scanCandle scanInit cs"

text \<open>\<open>((v - buyPrice) / buyPrice) * 100\<close>.\<close>

definition percentOfBuy :: "jsnum \<Rightarrow> jsnum \<Rightarrow> jsnum" where
  "percentOfBuy v buy = js_mul (js_div (js_sub v buy) buy) (Fin 100)"

text \<open>\<open>trade.sellPrice ? ((trade.sellPrice - buyPrice) / buyPrice) * 100 : null\<close>.\<close>

definition pnlOf :: "trade \<Rightarrow> jsnum option" where
  "pnlOf t =
     (case sellPrice t of
        None \<Rightarrow> None
      | Some sp \<Rightarrow> if truthyNum sp then Some (percentOfBuy sp (buyPrice t)) else None)"

text \<open>\<open>pnlPercent !== null && maxGainPercent > 0 ? (pnlPercent / maxGainPercent) * 100 : null\<close>.\<close>

definition capturedOf :: "jsnum option \<Rightarrow> jsnum \<Rightarrow> jsnum option" where
  "capturedOf pnl maxGain =
     (case pnl of
        None \<Rightarrow> None
      | Some p \<Rightarrow> if js_gt maxGain (Fin 0)
                  then Some (js_mul (js_div p maxGain) (Fin 100)) else None)"

text \<open>
  \<open>analyzeTradePerformance\<close> from the point where the awaited candle array is at hand.
\<close>

definition analyzeCandles :: "world \<Rightarrow> trade \<Rightarrow> candle list \<Rightarrow> trade" where
  "analyzeCandles w t ohlcvData =
     (if ohlcvData = [] then t\<lparr>analysis := None\<rparr>
      else
        let relevant = relevantCandles w t ohlcvData
        in if relevant = [] then t\<lparr>analysis := None\<rparr>
           else
             let st = scanCandles relevant;
                 pnl = pnlOf t;
                 maxGain = percentOfBuy (maxPrice st) (buyPrice t);
                 maxDrawdown = percentOfBuy (minPrice st) (buyPrice t);
                 captured = capturedOf pnl maxGain
             in t\<lparr>analysis := Some
                   \<lparr>minPrice = minPrice st, maxPrice = maxPrice st,
                    minTimestamp = minTimestamp st, maxTimestamp = maxTimestamp st,
                    pnlPercent = pnl, maxGainPercent = maxGain,
                    maxDrawdownPercent = maxDrawdown, capturedPercent = captured,
                    candleCount = length relevant\<rparr>\<rparr>)"

text \<open>
  The array returned by the client, read as candles. The analyzer is modelled on arrays
  of arrays of numbers, the shape the provider documents; an element of any other kind
  (on which the source would convert strings to numbers, or throw on \<open>null\<close>) is outside
  the model.
\<close>

definition asNum :: "json \<Rightarrow> jsnum option" where
  "asNum j = (case j of JNum n \<Rightarrow> Some n | _ \<Rightarrow> None)"

definition asCandle :: "json \<Rightarrow> candle option" where
  "asCandle j = (case j of JArr ys \<Rightarrow> those (map asNum ys) | _ \<Rightarrow> None)"

definition asCandles :: "json list \<Rightarrow> candle list option" where
  "asCandles xs = those (map asCandle xs)"

datatype completion = Returned trade | Threw js_error | OutsideModel

text \<open>
  What the analyzer does with the awaited value. On a value that is no array,
  \<open>ohlcvData.length\<close> is \<open>undefined\<close> for a number or a boolean and a member lookup for an
  object, so a falsy length returns the null analysis; a truthy one goes on to
  \<open>ohlcvData.filter\<close>, which is no function there, a TypeError.
\<close>

definition analyzeFetched :: "world \<Rightarrow> trade \<Rightarrow> json \<Rightarrow> completion" where
  "analyzeFetched w t ohlcvData =
     (case ohlcvData of
        JArr xs \<Rightarrow>
          (if xs = [] then Returned (t\<lparr>analysis := None\<rparr>)
           else case asCandles xs of
                  Some cs \<Rightarrow> Returned (analyzeCandles w t cs)
                | None \<Rightarrow> OutsideModel)
      | JNull \<Rightarrow> Threw TypeError
      | JBool _ \<Rightarrow> Returned (t\<lparr>analysis := None\<rparr>)
      | JNum _ \<Rightarrow> Returned (t\<lparr>analysis := None\<rparr>)
      | JStr s \<Rightarrow> if s = [] then Returned (t\<lparr>analysis := None\<rparr>) else Threw TypeError
      | JObj kvs \<Rightarrow>
          (case map_of (rev kvs) ''length'' of
             None \<Rightarrow> Returned (t\<lparr>analysis := None\<rparr>)
           | Some l \<Rightarrow> if truthy l then Threw TypeError
                       else Returned (t\<lparr>analysis := None\<rparr>)))"

definition analyzeTradePerformance :: "world \<Rightarrow> trade \<Rightarrow> completion \<times> world" where
  "analyzeTradePerformance w t =
     (let (ohlcvData, w1) = getOHLCV w ''solana'' (poolAddress t) ''hour'' 1 1000
      in (analyzeFetched w1 t ohlcvData, w1))"

section \<open>The input form\<close>

text \<open>
  \<open>TradeInputForm.handleSubmit\<close>, as far as it builds the trade record: the pair chosen in
  the search and the strings of the form fields. \<open>parseFloat\<close> and the ISO rendering of
  the current date are parameters.
\<close>

record tokenPair =
  baseToken_address :: string
  baseToken_symbol :: string
  baseToken_name :: string
  pairAddress :: string
  pair_dexId :: string
  pair_chainId :: string

record formData =
  form_buyPrice :: string
  form_buyAmount :: string
  form_buyMarketCap :: string
  form_buyTimestamp :: string
  form_sellPrice :: string
  form_sellAmount :: string
  form_sellTimestamp :: string
  form_notes :: string

definition handleSubmit ::
  "(string \<Rightarrow> jsnum) \<Rightarrow> world \<Rightarrow> string \<Rightarrow> tokenPair option \<Rightarrow> formData \<Rightarrow> trade option" where
  "handleSubmit parseFloat w nowIso selectedToken f =
     (case selectedToken of
        None \<Rightarrow> None
      | Some tok \<Rightarrow> Some
          \<lparr>trade_id = dateNow w,
           tokenAddress = baseToken_address tok,
           tokenSymbol = baseToken_symbol tok,
           tokenName = baseToken_name tok,
           poolAddress = pairAddress tok,
           dexId = pair_dexId tok,
           chainId = pair_chainId tok,
           buyPrice = parseFloat (form_buyPrice f),
           buyAmount = parseFloat (form_buyAmount f),
           buyMarketCap = parseFloat (form_buyMarketCap f),
           buyTimestamp = form_buyTimestamp f,
           sellPrice = (if form_sellPrice f \<noteq> [] then Some (parseFloat (form_sellPrice f)) else None),
           sellAmount = (if form_sellAmount f \<noteq> [] then Some (parseFloat (form_sellAmount f)) else None),
           sellTimestamp = (if form_sellTimestamp f \<noteq> [] then Some (form_sellTimestamp f) else None),
           trade_notes = form_notes f,
           status = (if form_sellPrice f \<noteq> [] then ''closed'' else ''open''),
           createdAt = nowIso,
           analysis = None\<rparr>)"

section \<open>Notions of the specification\<close>

text \<open>
  The candle list of a parsed response body: the member \<open>ohlcv_list\<close> of the object
  under \<open>attributes\<close> of the object under \<open>data\<close>, when the body has all three.
\<close>

definition member :: "json \<Rightarrow> string \<Rightarrow> json option" where
  "member j k = (case j of JObj kvs \<Rightarrow> map_of (rev kvs) k | _ \<Rightarrow> None)"

definition candleListOf :: "json \<Rightarrow> json option" where
  "candleListOf body =
     (case member body ''data'' of
        None \<Rightarrow> None
      | Some d \<Rightarrow>
          (case member d ''attributes'' of
             None \<Rightarrow> None
           | Some a \<Rightarrow> member a ''ohlcv_list''))"

text \<open>
  The canonical candle of the specification, a value with the named fields \<open>timestamp\<close>,
  \<open>open\<close>, \<open>high\<close>, \<open>low\<close> and \<open>close\<close> (and possibly \<open>volume\<close>), as opposed to the
  positional array of the provider.
\<close>

definition spec_canonicalCandle :: "json \<Rightarrow> bool" where
  "spec_canonicalCandle j =
     (member j ''timestamp'' \<noteq> None \<and> member j ''open'' \<noteq> None \<and> member j ''high'' \<noteq> None
      \<and> member j ''low'' \<noteq> None \<and> member j ''close'' \<noteq> None)"

definition elements :: "json \<Rightarrow> json list" where
  "elements j = (case j of JArr xs \<Rightarrow> xs | _ \<Rightarrow> [])"

section \<open>A worked example\<close>

text \<open>
  Five hourly candles around a trade bought on 2024-01-01 at 00:00 and sold at 03:00
  (UTC). The three candles inside the holding window have the lows 5, 3, 8 and the highs
  6, 9, 10; the candle before and the candle after the window carry more extreme prices.
\<close>

definition exampleCandles :: "candle list" where
  "exampleCandles =
     [[Fin 1704063600, Fin 4, Fin 20, Fin 1, Fin 4, Fin 100],
      [Fin 1704067200, Fin 5.5, Fin 6, Fin 5, Fin 5.5, Fin 100],
      [Fin 1704070800, Fin 5, Fin 9, Fin 3, Fin 8.5, Fin 100],
      [Fin 1704074400, Fin 8.5, Fin 10, Fin 8, Fin 9, Fin 100],
      [Fin 1704081600, Fin 9, Fin 30, Fin 0.5, Fin 9, Fin 100]]"

definition exampleList :: json where
  "exampleList = JArr (map (\<lambda>c. JArr (map JNum c)) exampleCandles)"

definition exampleBody :: json where
  "exampleBody =
     JObj [(''data'', JObj [(''id'', JStr ''e1''), (''type'', JStr ''ohlcv_request_response''),
                           (''attributes'', JObj [(''ohlcv_list'', exampleList)])])]"

definition exampleGetTime :: "string \<Rightarrow> jsnum" where
  "exampleGetTime s =
     (if s = ''2024-01-01T00:00'' then Fin 1704067200000
      else if s = ''2024-01-01T02:00'' then Fin 1704074400000
      else if s = ''2024-01-01T03:00'' then Fin 1704078000000
      else if s = ''2024-01-01T12:00'' then Fin 1704110400000
      else NaN)"

definition exampleWorld :: world where
  "exampleWorld =
     \<lparr>dateNow = Fin 1704153600000, dateGetTime = exampleGetTime,
      fetch = (\<lambda>url. Response 200 (Some exampleBody)), console = [], requests = []\<rparr>"

definition exampleParseFloat :: "string \<Rightarrow> jsnum" where
  "exampleParseFloat s =
     (if s = ''5'' then Fin 5 else if s = ''7.5'' then Fin 7.5
      else if s = ''100'' then Fin 100 else if s = ''0'' then Fin 0 else NaN)"

definition exampleToken :: tokenPair where
  "exampleToken =
     \<lparr>baseToken_address = ''So1'', baseToken_symbol = ''TKN'', baseToken_name = ''Token'',
      pairAddress = ''pool1'', pair_dexId = ''raydium'', pair_chainId = ''solana''\<rparr>"

definition exampleForm :: formData where
  "exampleForm =
     \<lparr>form_buyPrice = ''5'', form_buyAmount = ''100'', form_buyMarketCap = [],
      form_buyTimestamp = ''2024-01-01T00:00'', form_sellPrice = ''7.5'',
      form_sellAmount = [], form_sellTimestamp = ''2024-01-01T03:00'', form_notes = []\<rparr>"

definition exampleTrade :: trade where
  "exampleTrade =
     \<lparr>trade_id = Fin 1704153600000, tokenAddress = ''So1'', tokenSymbol = ''TKN'',
      tokenName = ''Token'', poolAddress = ''pool1'', dexId = ''raydium'', chainId = ''solana'',
      buyPrice = Fin 5, buyAmount = Fin 100, buyMarketCap = NaN,
      buyTimestamp = ''2024-01-01T00:00'', sellPrice = Some (Fin 7.5), sellAmount = None,
      sellTimestamp = Some ''2024-01-01T03:00'', trade_notes = [], status = ''closed'',
      createdAt = ''2024-01-02T00:00:00.000Z'', analysis = None\<rparr>"

text \<open>The same environment with another outcome of the request.\<close>

definition exampleWorldWith :: "fetch_result \<Rightarrow> world" where
  "exampleWorldWith r = exampleWorld\<lparr>fetch := (\<lambda>url. r)\<rparr>"

text \<open>The body the provider sends with an error status.\<close>

definition exampleErrorBody :: json where
  "exampleErrorBody =
     JObj [(''errors'', JArr [JObj [(''status'', JStr ''404''), (''title'', JStr ''Not Found'')]])]"

text \<open>
  The trade the form gives when a sell time is entered without a sell price, and the one
  it gives for a sell price of zero.
\<close>

definition exampleOpenTrade :: trade where
  "exampleOpenTrade = exampleTrade\<lparr>sellPrice := None, status := ''open''\<rparr>"

definition exampleZeroTrade :: trade where
  "exampleZeroTrade = exampleTrade\<lparr>sellPrice := Some (Fin 0)\<rparr>"

text \<open>
  A response whose one candle is an array holding a timestamp and nothing else, at the
  buy instant of the example trade.
\<close>

definition exampleShortSeries :: "candle list" where
  "exampleShortSeries = [[Fin 1704067200]]"

definition exampleShortBody :: json where
  "exampleShortBody =
     JObj [(''data'', JObj [(''attributes'',
       JObj [(''ohlcv_list'', JArr [JArr [JNum (Fin 1704067200)]])])])]"

text \<open>The three candles of the example that lie inside the holding window.\<close>

definition exampleWindow :: "candle list" where
  "exampleWindow = take 3 (drop 1 exampleCandles)"

section \<open>The extremum scan\<close>

lemma scanCandle_min:
  "minPrice (scanCandle st c) = (if js_lt (idx c 3) (minPrice st) then idx c 3 else minPrice st)"
  "minTimestamp (scanCandle st c) =
     (if js_lt (idx c 3) (minPrice st) then Some (candleTime c) else minTimestamp st)"
  by (simp_all add: scanCandle_def candleTime_def Let_def js_gt_def)

lemma scanCandle_max:
  "maxPrice (scanCandle st c) = (if js_gt (idx c 2) (maxPrice st) then idx c 2 else maxPrice st)"
  "maxTimestamp (scanCandle st c) =
     (if js_gt (idx c 2) (maxPrice st) then Some (candleTime c) else maxTimestamp st)"
  by (simp_all add: scanCandle_def candleTime_def Let_def js_gt_def)

lemma scanCandles_snoc: "scanCandles (cs @ [c]) = scanCandle (scanCandles cs) c"
  by (simp add: scanCandles_def)

lemma find_snoc:
  "find P (xs @ [x]) = (case find P xs of None \<Rightarrow> (if P x then Some x else None) | Some y \<Rightarrow> Some y)"
  by (induction xs) auto

lemma Min_snoc: "ls \<noteq> [] \<Longrightarrow> Min (set (ls @ [l])) = min l (Min (set ls))"
  by simp

lemma Max_snoc: "ls \<noteq> [] \<Longrightarrow> Max (set (ls @ [l])) = max l (Max (set ls))"
  by simp

lemma scan_min_correct:
  "cs \<noteq> [] \<Longrightarrow> map (\<lambda>c. idx c 3) cs = map Fin ls \<Longrightarrow>
     minPrice (scanCandles cs) = Fin (Min (set ls)) \<and>
     (\<exists>c. find (\<lambda>c. idx c 3 = Fin (Min (set ls))) cs = Some c \<and>
          minTimestamp (scanCandles cs) = Some (candleTime c))"
proof (induction cs arbitrary: ls rule: rev_induct)
  case Nil
  then show ?case by simp
next
  case (snoc x xs)
  from snoc.prems(2) obtain ls' l where ls: "ls = ls' @ [l]"
    and m: "map (\<lambda>c. idx c 3) xs = map Fin ls'" and lx: "idx x 3 = Fin l"
    by (cases ls rule: rev_cases) auto
  show ?case
  proof (cases "xs = []")
    case True
    with m have "ls' = []" by simp
    with True ls lx show ?thesis
      by (simp add: scanCandles_def scanCandle_min scanInit_def)
  next
    case False
    from snoc.IH[OF False m] obtain c0 where
      mp: "minPrice (scanCandles xs) = Fin (Min (set ls'))" and
      f: "find (\<lambda>c. idx c 3 = Fin (Min (set ls'))) xs = Some c0" and
      mt: "minTimestamp (scanCandles xs) = Some (candleTime c0)" by blast
    from False m have ne: "ls' \<noteq> []" by auto
    have lows: "\<And>c. c \<in> set xs \<Longrightarrow> \<exists>v \<in> set ls'. idx c 3 = Fin v"
    proof -
      fix c assume "c \<in> set xs"
      then have "idx c 3 \<in> set (map (\<lambda>c. idx c 3) xs)" by simp
      then show "\<exists>v \<in> set ls'. idx c 3 = Fin v" unfolding m by auto
    qed
    show ?thesis
    proof (cases "l < Min (set ls')")
      case True
      have M: "Min (set ls) = l"
        unfolding ls Min_snoc[OF ne] by (rule min.absorb1[OF less_imp_le[OF True]])
      have "find (\<lambda>c. idx c 3 = Fin l) xs = None"
      proof (rule ccontr)
        assume "find (\<lambda>c. idx c 3 = Fin l) xs \<noteq> None"
        then obtain c where "c \<in> set xs" "idx c 3 = Fin l"
          by (auto simp: find_None_iff)
        with lows have "l \<in> set ls'" by fastforce
        then have "Min (set ls') \<le> l" by simp
        with True show False by simp
      qed
      with True M mp lx show ?thesis
        by (simp add: scanCandles_snoc scanCandle_min find_snoc)
    next
      case False
      have M: "Min (set ls) = Min (set ls')"
        unfolding ls Min_snoc[OF ne] by (rule min.absorb2[OF leI[OF False]])
      with False mp lx f mt show ?thesis
        by (simp add: scanCandles_snoc scanCandle_min find_snoc)
    qed
  qed
qed

lemma scan_max_correct:
  "cs \<noteq> [] \<Longrightarrow> map (\<lambda>c. idx c 2) cs = map Fin hs \<Longrightarrow>
     maxPrice (scanCandles cs) = Fin (Max (set hs)) \<and>
     (\<exists>c. find (\<lambda>c. idx c 2 = Fin (Max (set hs))) cs = Some c \<and>
          maxTimestamp (scanCandles cs) = Some (candleTime c))"
proof (induction cs arbitrary: hs rule: rev_induct)
  case Nil
  then show ?case by simp
next
  case (snoc x xs)
  from snoc.prems(2) obtain hs' h where hs: "hs = hs' @ [h]"
    and m: "map (\<lambda>c. idx c 2) xs = map Fin hs'" and hx: "idx x 2 = Fin h"
    by (cases hs rule: rev_cases) auto
  show ?case
  proof (cases "xs = []")
    case True
    with m have "hs' = []" by simp
    with True hs hx show ?thesis
      by (simp add: scanCandles_def scanCandle_max scanInit_def js_gt_def)
  next
    case False
    from snoc.IH[OF False m] obtain c0 where
      mp: "maxPrice (scanCandles xs) = Fin (Max (set hs'))" and
      f: "find (\<lambda>c. idx c 2 = Fin (Max (set hs'))) xs = Some c0" and
      mt: "maxTimestamp (scanCandles xs) = Some (candleTime c0)" by blast
    from False m have ne: "hs' \<noteq> []" by auto
    have highs: "\<And>c. c \<in> set xs \<Longrightarrow> \<exists>v \<in> set hs'. idx c 2 = Fin v"
    proof -
      fix c assume "c \<in> set xs"
      then have "idx c 2 \<in> set (map (\<lambda>c. idx c 2) xs)" by simp
      then show "\<exists>v \<in> set hs'. idx c 2 = Fin v" unfolding m by auto
    qed
    show ?thesis
    proof (cases "Max (set hs') < h")
      case True
      have M: "Max (set hs) = h"
        unfolding hs Max_snoc[OF ne] by (rule max.absorb1[OF less_imp_le[OF True]])
      have "find (\<lambda>c. idx c 2 = Fin h) xs = None"
      proof (rule ccontr)
        assume "find (\<lambda>c. idx c 2 = Fin h) xs \<noteq> None"
        then obtain c where "c \<in> set xs" "idx c 2 = Fin h"
          by (auto simp: find_None_iff)
        with highs have "h \<in> set hs'" by fastforce
        then have "h \<le> Max (set hs')" by simp
        with True show False by simp
      qed
      with True M mp hx show ?thesis
        by (simp add: scanCandles_snoc scanCandle_max find_snoc js_gt_def)
    next
      case False
      have M: "Max (set hs) = Max (set hs')"
        unfolding hs Max_snoc[OF ne] by (rule max.absorb2[OF leI[OF False]])
      with False mp hx f mt show ?thesis
        by (simp add: scanCandles_snoc scanCandle_max find_snoc js_gt_def)
    qed
  qed
qed

lemma analysis_of_nonempty_window:
  assumes "relevantCandles w t ohlcvData \<noteq> []"
  shows "analysis (analyzeCandles w t ohlcvData) = Some
           \<lparr>minPrice = minPrice (scanCandles (relevantCandles w t ohlcvData)),
            maxPrice = maxPrice (scanCandles (relevantCandles w t ohlcvData)),
            minTimestamp = minTimestamp (scanCandles (relevantCandles w t ohlcvData)),
            maxTimestamp = maxTimestamp (scanCandles (relevantCandles w t ohlcvData)),
            pnlPercent = pnlOf t,
            maxGainPercent =
              percentOfBuy (maxPrice (scanCandles (relevantCandles w t ohlcvData))) (buyPrice t),
            maxDrawdownPercent =
              percentOfBuy (minPrice (scanCandles (relevantCandles w t ohlcvData))) (buyPrice t),
            capturedPercent = capturedOf (pnlOf t)
              (percentOfBuy (maxPrice (scanCandles (relevantCandles w t ohlcvData))) (buyPrice t)),
            candleCount = length (relevantCandles w t ohlcvData)\<rparr>"
proof -
  from assms have "ohlcvData \<noteq> []" by (auto simp: relevantCandles_def)
  with assms show ?thesis by (simp add: analyzeCandles_def Let_def)
qed

text \<open>
  Claim C1. For every trade and every non-empty filtered window whose candles carry
  finite lows and highs, the analysis exists, its \<open>minPrice\<close> is the least low of the
  window and its \<open>maxPrice\<close> the greatest high, and \<open>minTimestamp\<close> (\<open>maxTimestamp\<close>) is
  the timestamp in milliseconds of the first candle, in the order of the window, whose low
  (high) is that extremum.
\<close>

theorem extremum_scan_correct:
  assumes "relevantCandles w t ohlcvData = rel" and "rel \<noteq> []"
    and "map (\<lambda>c. idx c 3) rel = map Fin lows"
    and "map (\<lambda>c. idx c 2) rel = map Fin highs"
  shows "\<exists>a cmin cmax.
           analysis (analyzeCandles w t ohlcvData) = Some a
         \<and> minPrice a = Fin (Min (set lows))
         \<and> maxPrice a = Fin (Max (set highs))
         \<and> find (\<lambda>c. idx c 3 = Fin (Min (set lows))) rel = Some cmin
         \<and> minTimestamp a = Some (candleTime cmin)
         \<and> find (\<lambda>c. idx c 2 = Fin (Max (set highs))) rel = Some cmax
         \<and> maxTimestamp a = Some (candleTime cmax)"
proof -
  from scan_min_correct[OF assms(2,3)] obtain cmin where
    a: "minPrice (scanCandles rel) = Fin (Min (set lows))"
       "find (\<lambda>c. idx c 3 = Fin (Min (set lows))) rel = Some cmin"
       "minTimestamp (scanCandles rel) = Some (candleTime cmin)" by blast
  from scan_max_correct[OF assms(2,4)] obtain cmax where
    b: "maxPrice (scanCandles rel) = Fin (Max (set highs))"
       "find (\<lambda>c. idx c 2 = Fin (Max (set highs))) rel = Some cmax"
       "maxTimestamp (scanCandles rel) = Some (candleTime cmax)" by blast
  from assms(1,2) have ne: "relevantCandles w t ohlcvData \<noteq> []" by simp
  show ?thesis
    unfolding analysis_of_nonempty_window[OF ne] assms(1)
    using a b by simp
qed

lemma example_window:
  "relevantCandles exampleWorld exampleTrade exampleCandles = exampleWindow"
  by (simp add: relevantCandles_def exampleWorld_def exampleTrade_def exampleCandles_def
      exampleWindow_def candleTime_def idx_def buyTime_def sellTime_def exampleGetTime_def
      js_ge_def js_le_def)

theorem extremum_scan_correct_witness:
  "map_option minPrice (analysis (analyzeCandles exampleWorld exampleTrade exampleCandles))
     = Some (Fin 3)
   \<and> map_option minTimestamp (analysis (analyzeCandles exampleWorld exampleTrade exampleCandles))
     = Some (Some (Fin 1704070800000))
   \<and> map_option maxPrice (analysis (analyzeCandles exampleWorld exampleTrade exampleCandles))
     = Some (Fin 10)
   \<and> map_option maxTimestamp (analysis (analyzeCandles exampleWorld exampleTrade exampleCandles))
     = Some (Some (Fin 1704074400000))"
proof -
  have n: "exampleWindow \<noteq> []"
    by (simp add: exampleWindow_def exampleCandles_def)
  have l: "map (\<lambda>c. idx c 3) exampleWindow = map Fin [5, 3, 8]"
    by (simp add: exampleWindow_def exampleCandles_def idx_def)
  have h: "map (\<lambda>c. idx c 2) exampleWindow = map Fin [6, 9, 10]"
    by (simp add: exampleWindow_def exampleCandles_def idx_def)
  from extremum_scan_correct[OF example_window n l h] obtain a cmin cmax where
    a: "analysis (analyzeCandles exampleWorld exampleTrade exampleCandles) = Some a"
      "minPrice a = Fin (Min (set [5, 3, 8]))" "maxPrice a = Fin (Max (set [6, 9, 10]))"
      "find (\<lambda>c. idx c 3 = Fin (Min (set [5, 3, 8]))) exampleWindow = Some cmin"
      "minTimestamp a = Some (candleTime cmin)"
      "find (\<lambda>c. idx c 2 = Fin (Max (set [6, 9, 10]))) exampleWindow = Some cmax"
      "maxTimestamp a = Some (candleTime cmax)" by blast
  from a(4) have cmin: "cmin = exampleCandles ! 2"
    by (simp add: exampleWindow_def exampleCandles_def idx_def)
  from a(6) have cmax: "cmax = exampleCandles ! 3"
    by (simp add: exampleWindow_def exampleCandles_def idx_def)
  from a(1,2,3,5,7) show ?thesis
    by (simp add: cmin cmax exampleCandles_def candleTime_def idx_def)
qed

section \<open>The analyzer as a whole\<close>

lemma getOHLCV_clock:
  "dateNow (snd (getOHLCV w n p tf ag lmt)) = dateNow w"
  "dateGetTime (snd (getOHLCV w n p tf ag lmt)) = dateGetTime w"
  "fetch (snd (getOHLCV w n p tf ag lmt)) = fetch w"
  by (simp_all add: getOHLCV_def Let_def split: sum.splits)

lemma getOHLCV_frame:
  "fst (getOHLCV (w\<lparr>console := c, requests := r\<rparr>) n p tf ag lmt) = fst (getOHLCV w n p tf ag lmt)"
  by (simp add: getOHLCV_def Let_def split: sum.splits)

lemma analyzeCandles_frame:
  assumes "dateNow w' = dateNow w" and "dateGetTime w' = dateGetTime w"
  shows "analyzeCandles w' t cs = analyzeCandles w t cs"
proof -
  from assms have "buyTime w' t = buyTime w t" and "sellTime w' t = sellTime w t"
    by (simp_all add: buyTime_def sellTime_def split: option.splits)
  then have "relevantCandles w' t cs = relevantCandles w t cs"
    by (simp add: relevantCandles_def)
  then show ?thesis by (simp add: analyzeCandles_def)
qed

lemma analyzeFetched_frame:
  assumes "dateNow w' = dateNow w" and "dateGetTime w' = dateGetTime w"
  shows "analyzeFetched w' t j = analyzeFetched w t j"
  by (cases j) (simp_all add: analyzeFetched_def analyzeCandles_frame[OF assms] split: option.splits)

lemma analyzeTradePerformance_fst:
  "fst (analyzeTradePerformance w t) =
     analyzeFetched w t (fst (getOHLCV w ''solana'' (poolAddress t) ''hour'' 1 1000))"
proof -
  obtain j w1 where g: "getOHLCV w ''solana'' (poolAddress t) ''hour'' 1 1000 = (j, w1)"
    by (cases "getOHLCV w ''solana'' (poolAddress t) ''hour'' 1 1000")
  have "dateNow w1 = dateNow w" "dateGetTime w1 = dateGetTime w"
    using getOHLCV_clock(1,2)[of w "''solana''" "poolAddress t" "''hour''" 1 1000] g by simp_all
  then have "analyzeFetched w1 t j = analyzeFetched w t j" by (rule analyzeFetched_frame)
  with g show ?thesis by (simp add: analyzeTradePerformance_def)
qed

lemma analyzeTradePerformance_snd:
  "snd (analyzeTradePerformance w t) = snd (getOHLCV w ''solana'' (poolAddress t) ''hour'' 1 1000)"
  by (simp add: analyzeTradePerformance_def split: prod.splits)

text \<open>
  Claim C2. When the array the client returns is empty, or none of its candles has its
  timestamp inside the inclusive window from the buy instant to the end instant, the
  analyzer returns (it does not throw) the trade with \<open>analysis\<close> null: no summary is
  built at all.
\<close>

theorem empty_window_no_analysis:
  assumes "fst (getOHLCV w ''solana'' (poolAddress t) ''hour'' 1 1000) = JArr xs"
    and "asCandles xs = Some cs"
    and "cs = [] \<or> (\<forall>c\<in>set cs. \<not> (js_ge (candleTime c) (buyTime w t)
                                     \<and> js_le (candleTime c) (sellTime w t)))"
  shows "fst (analyzeTradePerformance w t) = Returned (t\<lparr>analysis := None\<rparr>)"
proof -
  from assms(3) have "relevantCandles w t cs = []"
    by (auto simp: relevantCandles_def filter_empty_conv)
  then have "analyzeCandles w t cs = t\<lparr>analysis := None\<rparr>"
    by (simp add: analyzeCandles_def Let_def)
  with assms(1,2) show ?thesis
    by (simp add: analyzeTradePerformance_fst analyzeFetched_def)
qed

text \<open>
  Claim C5. A second invocation on the same trade, in the environment the first one left
  behind (same clock, same date parser, same network outcome), returns the same result
  as the first. The result does not depend on the console or the request trace, the only
  state an invocation writes, and an invocation leaves the clock, the date parser and the
  network as they were.
\<close>

theorem analyzer_repeatable:
  "fst (analyzeTradePerformance (snd (analyzeTradePerformance w t)) t)
     = fst (analyzeTradePerformance w t)
   \<and> fst (analyzeTradePerformance (w\<lparr>console := c, requests := r\<rparr>) t)
     = fst (analyzeTradePerformance w t)
   \<and> dateNow (snd (analyzeTradePerformance w t)) = dateNow w
   \<and> dateGetTime (snd (analyzeTradePerformance w t)) = dateGetTime w
   \<and> fetch (snd (analyzeTradePerformance w t)) = fetch w"
proof -
  let ?w1 = "snd (getOHLCV w ''solana'' (poolAddress t) ''hour'' 1 1000)"
  have c: "dateNow ?w1 = dateNow w" "dateGetTime ?w1 = dateGetTime w" "fetch ?w1 = fetch w"
    by (rule getOHLCV_clock)+
  have g: "fst (getOHLCV ?w1 ''solana'' (poolAddress t) ''hour'' 1 1000)
             = fst (getOHLCV w ''solana'' (poolAddress t) ''hour'' 1 1000)"
    using c(3) by (simp add: getOHLCV_def Let_def split: sum.splits)
  have 1: "fst (analyzeTradePerformance (snd (analyzeTradePerformance w t)) t)
     = fst (analyzeTradePerformance w t)"
    unfolding analyzeTradePerformance_snd analyzeTradePerformance_fst g
    by (rule analyzeFetched_frame[OF c(1,2)])
  have 2: "fst (analyzeTradePerformance (w\<lparr>console := c, requests := r\<rparr>) t)
     = fst (analyzeTradePerformance w t)"
    unfolding analyzeTradePerformance_fst getOHLCV_frame
    by (rule analyzeFetched_frame) simp_all
  from 1 2 c show ?thesis by (simp add: analyzeTradePerformance_snd)
qed

lemma example_fetched:
  "fst (getOHLCV exampleWorld n p tf ag lmt) = exampleList"
  by (simp add: getOHLCV_def getOHLCV_try_def exampleWorld_def exampleBody_def exampleList_def
      Let_def)

lemma example_asCandles:
  "asCandles (map (\<lambda>c. JArr (map JNum c)) exampleCandles) = Some exampleCandles"
  by (simp add: asCandles_def asCandle_def asNum_def exampleCandles_def)

lemma example_analysis:
  "fst (analyzeTradePerformance exampleWorld exampleTrade) =
     Returned (exampleTrade\<lparr>analysis := Some
       \<lparr>minPrice = Fin 3, maxPrice = Fin 10,
        minTimestamp = Some (Fin 1704070800000), maxTimestamp = Some (Fin 1704074400000),
        pnlPercent = Some (Fin 50), maxGainPercent = Fin 100,
        maxDrawdownPercent = Fin (- 40), capturedPercent = Some (Fin 50),
        candleCount = 3\<rparr>\<rparr>)"
proof -
  have "analyzeCandles exampleWorld exampleTrade exampleCandles =
     exampleTrade\<lparr>analysis := Some
       \<lparr>minPrice = Fin 3, maxPrice = Fin 10,
        minTimestamp = Some (Fin 1704070800000), maxTimestamp = Some (Fin 1704074400000),
        pnlPercent = Some (Fin 50), maxGainPercent = Fin 100,
        maxDrawdownPercent = Fin (- 40), capturedPercent = Some (Fin 50),
        candleCount = 3\<rparr>\<rparr>"
    unfolding analyzeCandles_def example_window
    by (simp add: exampleWindow_def exampleCandles_def scanCandles_def scanCandle_def
        scanInit_def idx_def Let_def js_gt_def pnlOf_def capturedOf_def percentOfBuy_def
        truthyNum_def exampleTrade_def)
  then show ?thesis
    by (simp add: analyzeTradePerformance_fst example_fetched analyzeFetched_def
        exampleList_def example_asCandles) (simp add: exampleCandles_def)
qed

theorem empty_window_no_analysis_witness:
  "fst (analyzeTradePerformance (exampleWorldWith Rejected) exampleTrade)
     = Returned (exampleTrade\<lparr>analysis := None\<rparr>)
   \<and> fst (analyzeTradePerformance exampleWorld
          (exampleTrade\<lparr>buyTimestamp := ''2024-01-01T12:00'', sellTimestamp := None\<rparr>))
     = Returned (exampleTrade\<lparr>buyTimestamp := ''2024-01-01T12:00'', sellTimestamp := None,
                              analysis := None\<rparr>)"
proof -
  let ?w = "exampleWorldWith Rejected"
  let ?t = "exampleTrade\<lparr>buyTimestamp := ''2024-01-01T12:00'', sellTimestamp := None\<rparr>"
  have a1: "fst (getOHLCV ?w ''solana'' (poolAddress exampleTrade) ''hour'' 1 1000) = JArr []"
    by (simp add: getOHLCV_def getOHLCV_try_def Let_def exampleWorldWith_def)
  have a2: "asCandles [] = Some []"
    by (simp add: asCandles_def)
  have a3: "([] :: candle list) = [] \<or> (\<forall>c\<in>set []. \<not> (js_ge (candleTime c) (buyTime ?w exampleTrade)
                \<and> js_le (candleTime c) (sellTime ?w exampleTrade)))"
    by simp
  have b1: "fst (getOHLCV exampleWorld ''solana'' (poolAddress ?t) ''hour'' 1 1000)
              = JArr (map (\<lambda>c. JArr (map JNum c)) exampleCandles)"
    by (simp add: example_fetched exampleList_def)
  have b3: "exampleCandles = [] \<or> (\<forall>c\<in>set exampleCandles.
              \<not> (js_ge (candleTime c) (buyTime exampleWorld ?t)
                 \<and> js_le (candleTime c) (sellTime exampleWorld ?t)))"
    by (simp add: exampleCandles_def candleTime_def idx_def buyTime_def sellTime_def
        exampleWorld_def exampleTrade_def exampleGetTime_def js_ge_def js_le_def)
  from empty_window_no_analysis[OF a1 a2 a3] empty_window_no_analysis[OF b1 example_asCandles b3]
  show ?thesis by simp
qed

theorem analyzer_repeatable_witness:
  "fst (analyzeTradePerformance (snd (analyzeTradePerformance exampleWorld exampleTrade))
        exampleTrade) =
     Returned (exampleTrade\<lparr>analysis := Some
       \<lparr>minPrice = Fin 3, maxPrice = Fin 10,
        minTimestamp = Some (Fin 1704070800000), maxTimestamp = Some (Fin 1704074400000),
        pnlPercent = Some (Fin 50), maxGainPercent = Fin 100,
        maxDrawdownPercent = Fin (- 40), capturedPercent = Some (Fin 50),
        candleCount = 3\<rparr>\<rparr>)"
  using analyzer_repeatable[of exampleWorld exampleTrade] example_analysis by simp

text \<open>
  Claim C4. With a candle time, a buy instant and an end instant that are finite numbers
  of milliseconds, a candle of the series is in the filtered window, the list the
  extremum scan runs over, exactly when buy instant \<open>\<le>\<close> candle time \<open>\<le>\<close> end instant:
  both bounds are included, and a candle strictly outside is excluded.
\<close>

theorem window_filter_inclusive:
  assumes "candleTime c = Fin tc" and "buyTime w t = Fin b" and "sellTime w t = Fin e"
  shows "(c \<in> set (relevantCandles w t ohlcvData)) = (c \<in> set ohlcvData \<and> b \<le> tc \<and> tc \<le> e)"
  using assms by (auto simp: relevantCandles_def js_ge_def js_le_def)

theorem window_filter_inclusive_witness:
  "candleTime (exampleCandles ! 1) = buyTime exampleWorld exampleTrade
   \<and> exampleCandles ! 1 \<in> set (relevantCandles exampleWorld exampleTrade exampleCandles)
   \<and> candleTime (exampleCandles ! 3)
       = sellTime exampleWorld (exampleTrade\<lparr>sellTimestamp := Some ''2024-01-01T02:00''\<rparr>)
   \<and> exampleCandles ! 3 \<in> set (relevantCandles exampleWorld
         (exampleTrade\<lparr>sellTimestamp := Some ''2024-01-01T02:00''\<rparr>) exampleCandles)
   \<and> exampleCandles ! 0 \<notin> set (relevantCandles exampleWorld exampleTrade exampleCandles)
   \<and> exampleCandles ! 4 \<notin> set (relevantCandles exampleWorld exampleTrade exampleCandles)"
proof -
  let ?t2 = "exampleTrade\<lparr>sellTimestamp := Some ''2024-01-01T02:00''\<rparr>"
  have b: "buyTime exampleWorld exampleTrade = Fin 1704067200000"
    "buyTime exampleWorld ?t2 = Fin 1704067200000"
    by (simp_all add: buyTime_def exampleWorld_def exampleTrade_def exampleGetTime_def)
  have e: "sellTime exampleWorld exampleTrade = Fin 1704078000000"
    by (simp add: sellTime_def exampleWorld_def exampleTrade_def exampleGetTime_def)
  have e2: "sellTime exampleWorld ?t2 = Fin 1704074400000"
    by (simp add: sellTime_def exampleWorld_def exampleTrade_def exampleGetTime_def)
  have c0: "candleTime (exampleCandles ! 0) = Fin 1704063600000"
    and c1: "candleTime (exampleCandles ! 1) = Fin 1704067200000"
    and c3: "candleTime (exampleCandles ! 3) = Fin 1704074400000"
    and c4: "candleTime (exampleCandles ! 4) = Fin 1704081600000"
    by (simp_all add: candleTime_def idx_def exampleCandles_def)
  have m: "exampleCandles ! 0 \<in> set exampleCandles" "exampleCandles ! 1 \<in> set exampleCandles"
    "exampleCandles ! 3 \<in> set exampleCandles" "exampleCandles ! 4 \<in> set exampleCandles"
    by (simp_all add: exampleCandles_def)
  from window_filter_inclusive[OF c1 b(1) e, of exampleCandles]
       window_filter_inclusive[OF c3 b(2) e2, of exampleCandles]
       window_filter_inclusive[OF c0 b(1) e, of exampleCandles]
       window_filter_inclusive[OF c4 b(1) e, of exampleCandles] m c1 c3
  show ?thesis by (simp add: b e e2)
qed

lemma analysis_Some_window:
  assumes "analysis (analyzeCandles w t ohlcvData) = Some a"
  shows "relevantCandles w t ohlcvData \<noteq> []"
proof
  assume "relevantCandles w t ohlcvData = []"
  then have "analysis (analyzeCandles w t ohlcvData) = None"
    by (simp add: analyzeCandles_def Let_def)
  with assms show False by simp
qed

lemma scan_min_member:
  "cs \<noteq> [] \<Longrightarrow> \<forall>c\<in>set cs. isFinite (idx c 3) \<Longrightarrow>
     \<exists>c\<in>set cs. minPrice (scanCandles cs) = idx c 3
               \<and> minTimestamp (scanCandles cs) = Some (candleTime c)"
proof (induction cs rule: rev_induct)
  case Nil
  then show ?case by simp
next
  case (snoc x xs)
  show ?case
  proof (cases "xs = []")
    case True
    from snoc.prems(2) obtain v where "idx x 3 = Fin v"
      by (auto simp: isFinite_def split: jsnum.splits)
    with True show ?thesis
      by (simp add: scanCandles_def scanCandle_min scanInit_def)
  next
    case False
    with snoc obtain c where "c \<in> set xs" "minPrice (scanCandles xs) = idx c 3"
      "minTimestamp (scanCandles xs) = Some (candleTime c)" by auto
    then show ?thesis
      by (cases "js_lt (idx x 3) (minPrice (scanCandles xs))")
         (auto simp: scanCandles_snoc scanCandle_min)
  qed
qed

lemma scan_max_member:
  "cs \<noteq> [] \<Longrightarrow> \<forall>c\<in>set cs. isFinite (idx c 2) \<Longrightarrow>
     \<exists>c\<in>set cs. maxPrice (scanCandles cs) = idx c 2
               \<and> maxTimestamp (scanCandles cs) = Some (candleTime c)"
proof (induction cs rule: rev_induct)
  case Nil
  then show ?case by simp
next
  case (snoc x xs)
  show ?case
  proof (cases "xs = []")
    case True
    from snoc.prems(2) obtain v where "idx x 2 = Fin v"
      by (auto simp: isFinite_def split: jsnum.splits)
    with True show ?thesis
      by (simp add: scanCandles_def scanCandle_max scanInit_def js_gt_def)
  next
    case False
    with snoc obtain c where "c \<in> set xs" "maxPrice (scanCandles xs) = idx c 2"
      "maxTimestamp (scanCandles xs) = Some (candleTime c)" by auto
    then show ?thesis
      by (cases "js_gt (idx x 2) (maxPrice (scanCandles xs))")
         (auto simp: scanCandles_snoc scanCandle_max)
  qed
qed

text \<open>
  Claim C10, as the code has it. When the analyzer builds a summary over a window whose
  candles all have a finite high and a finite low, \<open>candleCount\<close> is at least 1 and is
  the size of the filtered window, \<open>minPrice\<close> and \<open>minTimestamp\<close> are the low and the
  millisecond timestamp of one candle of the window, \<open>maxPrice\<close> and \<open>maxTimestamp\<close> the
  high and the millisecond timestamp of one candle of the window, and both prices are
  finite: neither sentinel of the scan is returned. The analyzer does not check the
  candles, so without that condition on them a summary can hold the sentinels.
\<close>

theorem summary_well_formed:
  assumes "analysis (analyzeCandles w t ohlcvData) = Some a"
    and "\<forall>c\<in>set (relevantCandles w t ohlcvData). isFinite (idx c 2) \<and> isFinite (idx c 3)"
  shows "1 \<le> candleCount a
       \<and> candleCount a = length (relevantCandles w t ohlcvData)
       \<and> (\<exists>c\<in>set (relevantCandles w t ohlcvData).
             minPrice a = idx c 3 \<and> minTimestamp a = Some (candleTime c))
       \<and> (\<exists>c\<in>set (relevantCandles w t ohlcvData).
             maxPrice a = idx c 2 \<and> maxTimestamp a = Some (candleTime c))
       \<and> isFinite (minPrice a) \<and> isFinite (maxPrice a)"
proof -
  let ?rel = "relevantCandles w t ohlcvData"
  have ne: "?rel \<noteq> []" using assms(1) by (rule analysis_Some_window)
  from analysis_of_nonempty_window[OF ne] assms(1)
  have a: "minPrice a = minPrice (scanCandles ?rel)" "maxPrice a = maxPrice (scanCandles ?rel)"
    "minTimestamp a = minTimestamp (scanCandles ?rel)"
    "maxTimestamp a = maxTimestamp (scanCandles ?rel)"
    "candleCount a = length ?rel" by auto
  from assms(2) have lo: "\<forall>c\<in>set ?rel. isFinite (idx c 3)"
    and hi: "\<forall>c\<in>set ?rel. isFinite (idx c 2)" by simp_all
  from scan_min_member[OF ne lo] obtain cmin where
    cmin: "cmin \<in> set ?rel" "minPrice (scanCandles ?rel) = idx cmin 3"
      "minTimestamp (scanCandles ?rel) = Some (candleTime cmin)" by blast
  from scan_max_member[OF ne hi] obtain cmax where
    cmax: "cmax \<in> set ?rel" "maxPrice (scanCandles ?rel) = idx cmax 2"
      "maxTimestamp (scanCandles ?rel) = Some (candleTime cmax)" by blast
  have "1 \<le> candleCount a" using ne a(5) by (cases ?rel) simp_all
  moreover have "isFinite (minPrice a)" using cmin(1,2) lo a(1) by simp
  moreover have "isFinite (maxPrice a)" using cmax(1,2) hi a(2) by simp
  ultimately show ?thesis using a cmin cmax by auto
qed

text \<open>
  Claim C9. For a trade whose \<open>sellPrice\<close> is the number 0, every summary the analyzer
  builds has \<open>pnlPercent\<close> null and \<open>capturedPercent\<close> null: the test on the sell price
  is a test of truthiness.
\<close>

theorem zero_sell_price_is_no_sell:
  assumes "sellPrice t = Some (Fin 0)"
    and "analysis (analyzeCandles w t ohlcvData) = Some a"
  shows "pnlPercent a = None \<and> capturedPercent a = None"
proof -
  have ne: "relevantCandles w t ohlcvData \<noteq> []" using assms(2) by (rule analysis_Some_window)
  from assms(1) have "pnlOf t = None" by (simp add: pnlOf_def truthyNum_def)
  with analysis_of_nonempty_window[OF ne] assms(2) show ?thesis
    by (auto simp: capturedOf_def)
qed

lemma example_candles_analysis:
  "analyzeCandles exampleWorld exampleTrade exampleCandles =
     exampleTrade\<lparr>analysis := Some
       \<lparr>minPrice = Fin 3, maxPrice = Fin 10,
        minTimestamp = Some (Fin 1704070800000), maxTimestamp = Some (Fin 1704074400000),
        pnlPercent = Some (Fin 50), maxGainPercent = Fin 100,
        maxDrawdownPercent = Fin (- 40), capturedPercent = Some (Fin 50),
        candleCount = 3\<rparr>\<rparr>"
  unfolding analyzeCandles_def example_window
  by (simp add: exampleWindow_def exampleCandles_def scanCandles_def scanCandle_def
      scanInit_def idx_def Let_def js_gt_def pnlOf_def capturedOf_def percentOfBuy_def
      truthyNum_def exampleTrade_def)

theorem summary_well_formed_witness:
  "map_option candleCount (analysis (analyzeCandles exampleWorld exampleTrade exampleCandles))
     = Some 3
   \<and> map_option minTimestamp (analysis (analyzeCandles exampleWorld exampleTrade exampleCandles))
     \<noteq> Some None
   \<and> map_option (\<lambda>a. isFinite (minPrice a) \<and> isFinite (maxPrice a))
        (analysis (analyzeCandles exampleWorld exampleTrade exampleCandles)) = Some True"
proof -
  obtain a where a: "analysis (analyzeCandles exampleWorld exampleTrade exampleCandles) = Some a"
    by (simp add: example_candles_analysis)
  have f: "\<forall>c\<in>set (relevantCandles exampleWorld exampleTrade exampleCandles).
             isFinite (idx c 2) \<and> isFinite (idx c 3)"
    unfolding example_window
    by (simp add: exampleWindow_def exampleCandles_def idx_def isFinite_def)
  have len: "length exampleWindow = 3"
    by (simp add: exampleWindow_def exampleCandles_def)
  from summary_well_formed[OF a f, unfolded example_window] a len show ?thesis
    by auto
qed

lemma example_zero_window:
  "relevantCandles exampleWorld exampleZeroTrade exampleCandles = exampleWindow"
  using example_window
  by (simp add: relevantCandles_def buyTime_def sellTime_def exampleZeroTrade_def exampleTrade_def)

theorem zero_sell_price_is_no_sell_witness:
  "sellPrice exampleZeroTrade = Some (Fin 0)
   \<and> map_option pnlPercent (analysis (analyzeCandles exampleWorld exampleZeroTrade exampleCandles))
       = Some None
   \<and> map_option capturedPercent
        (analysis (analyzeCandles exampleWorld exampleZeroTrade exampleCandles)) = Some None"
proof -
  have s: "sellPrice exampleZeroTrade = Some (Fin 0)"
    by (simp add: exampleZeroTrade_def)
  have "relevantCandles exampleWorld exampleZeroTrade exampleCandles \<noteq> []"
    unfolding example_zero_window by (simp add: exampleWindow_def exampleCandles_def)
  from analysis_of_nonempty_window[OF this] obtain a where
    a: "analysis (analyzeCandles exampleWorld exampleZeroTrade exampleCandles) = Some a" by blast
  from zero_sell_price_is_no_sell[OF s a] s a show ?thesis by simp
qed

text \<open>
  Claim C3, at the input where the code departs from it. The form turns the sell price
  \<open>0\<close> into a trade with status \<open>closed\<close> and the recorded sell price 0, for which the
  formula of the claim gives a P&L of \<open>-100\<close> percent; the analyzer returns a summary
  whose \<open>pnlPercent\<close> is null.
\<close>

theorem sold_at_zero_closed_without_pnl:
  "handleSubmit exampleParseFloat exampleWorld ''2024-01-02T00:00:00.000Z'' (Some exampleToken)
     (exampleForm\<lparr>form_sellPrice := ''0''\<rparr>) = Some exampleZeroTrade
   \<and> status exampleZeroTrade = ''closed''
   \<and> sellPrice exampleZeroTrade = Some (Fin 0)
   \<and> percentOfBuy (Fin 0) (buyPrice exampleZeroTrade) = Fin (- 100)
   \<and> map_option pnlPercent (analysis (analyzeCandles exampleWorld exampleZeroTrade exampleCandles))
       = Some None"
proof -
  have "relevantCandles exampleWorld exampleZeroTrade exampleCandles \<noteq> []"
    unfolding example_zero_window by (simp add: exampleWindow_def exampleCandles_def)
  from analysis_of_nonempty_window[OF this]
  have "map_option pnlPercent
          (analysis (analyzeCandles exampleWorld exampleZeroTrade exampleCandles)) = Some None"
    by (simp add: pnlOf_def exampleZeroTrade_def truthyNum_def)
  then show ?thesis
    by (simp add: handleSubmit_def exampleParseFloat_def exampleWorld_def exampleToken_def
        exampleForm_def exampleTrade_def exampleZeroTrade_def percentOfBuy_def)
qed

section \<open>The price series client and the holding window\<close>

lemma getOHLCV_try_body:
  "getOHLCV_try (Response st (Some body)) =
     (if body = JNull then Inl TypeError else Inr (orEmptyArray (candleListOf body)))"
proof (cases body)
  case (JObj kvs)
  show ?thesis
  proof (cases "map_of (rev kvs) ''data''")
    case None
    with JObj show ?thesis
      by (simp add: getOHLCV_try_def candleListOf_def member_def)
  next
    case (Some d)
    have "optChain (optChain (Some d) ''attributes'') ''ohlcv_list''
            = (case member d ''attributes'' of None \<Rightarrow> None | Some a \<Rightarrow> member a ''ohlcv_list'')"
    proof (cases d)
      case (JObj kvs2)
      show ?thesis
      proof (cases "map_of (rev kvs2) ''attributes''")
        case None
        with JObj show ?thesis by (simp add: member_def)
      next
        case (Some a)
        with JObj show ?thesis by (cases a) (simp_all add: member_def)
      qed
    qed (simp_all add: member_def)
    with JObj Some show ?thesis
      by (simp add: getOHLCV_try_def candleListOf_def member_def)
  qed
qed (simp_all add: getOHLCV_try_def candleListOf_def member_def)

lemma getOHLCV_fst:
  "fst (getOHLCV w n p tf ag lmt) =
     (case getOHLCV_try (fetch w (ohlcvUrl n p tf ag lmt)) of Inr v \<Rightarrow> v | Inl e \<Rightarrow> JArr [])"
  by (simp add: getOHLCV_def Let_def split: sum.splits)

text \<open>
  Claim C6, as the code has it. A rejected fetch, a body that is no JSON, and a body
  without the candle list each make the client return the empty array; whatever the
  \<open>try\<close> block throws is caught, logged and replaced by the empty array, so the client
  never throws. The status code is not read: a response whose body holds the candle list
  is answered with that list (or the empty array when the list is falsy) whatever its
  status.
\<close>

theorem client_degrades_to_empty:
  "(fetch w (ohlcvUrl n p tf ag lmt) = Rejected
      \<longrightarrow> fst (getOHLCV w n p tf ag lmt) = JArr [])
   \<and> (fetch w (ohlcvUrl n p tf ag lmt) = Response st None
      \<longrightarrow> fst (getOHLCV w n p tf ag lmt) = JArr [])
   \<and> (fetch w (ohlcvUrl n p tf ag lmt) = Response st (Some body) \<and> candleListOf body = None
      \<longrightarrow> fst (getOHLCV w n p tf ag lmt) = JArr [])
   \<and> (fetch w (ohlcvUrl n p tf ag lmt) = Response st (Some body) \<and> candleListOf body = Some l
      \<longrightarrow> fst (getOHLCV w n p tf ag lmt) = (if truthy l then l else JArr []))
   \<and> (getOHLCV_try (fetch w (ohlcvUrl n p tf ag lmt)) = Inl err
      \<longrightarrow> getOHLCV w n p tf ag lmt =
            (JArr [], w\<lparr>requests := requests w @ [ohlcvUrl n p tf ag lmt],
                         console := console w @ [(''GeckoTerminal OHLCV error:'', err)]\<rparr>))"
proof (intro conjI impI)
  assume "fetch w (ohlcvUrl n p tf ag lmt) = Rejected"
  then show "fst (getOHLCV w n p tf ag lmt) = JArr []"
    by (simp add: getOHLCV_fst getOHLCV_try_def)
next
  assume "fetch w (ohlcvUrl n p tf ag lmt) = Response st None"
  then show "fst (getOHLCV w n p tf ag lmt) = JArr []"
    by (simp add: getOHLCV_fst getOHLCV_try_def)
next
  assume "fetch w (ohlcvUrl n p tf ag lmt) = Response st (Some body) \<and> candleListOf body = None"
  then show "fst (getOHLCV w n p tf ag lmt) = JArr []"
    by (simp add: getOHLCV_fst getOHLCV_try_body)
next
  assume a: "fetch w (ohlcvUrl n p tf ag lmt) = Response st (Some body) \<and> candleListOf body = Some l"
  then have "body \<noteq> JNull" by (auto simp: candleListOf_def member_def)
  with a show "fst (getOHLCV w n p tf ag lmt) = (if truthy l then l else JArr [])"
    by (simp add: getOHLCV_fst getOHLCV_try_body)
next
  assume "getOHLCV_try (fetch w (ohlcvUrl n p tf ag lmt)) = Inl err"
  then show "getOHLCV w n p tf ag lmt =
            (JArr [], w\<lparr>requests := requests w @ [ohlcvUrl n p tf ag lmt],
                         console := console w @ [(''GeckoTerminal OHLCV error:'', err)]\<rparr>)"
    by (simp add: getOHLCV_def Let_def)
qed

text \<open>
  A response with status 500 whose body holds a candle list does not give the empty
  array.
\<close>

theorem non2xx_with_list_counterexample:
  "\<not> (fst (getOHLCV (exampleWorldWith (Response 500 (Some exampleBody)))
              ''solana'' ''pool1'' ''hour'' 1 1000) = JArr [])"
  by (simp add: getOHLCV_fst getOHLCV_try_body exampleWorldWith_def exampleWorld_def
      exampleBody_def candleListOf_def member_def exampleList_def exampleCandles_def)

lemma example_candleListOf:
  "candleListOf exampleBody = Some exampleList" "candleListOf exampleErrorBody = None"
  by (simp_all add: candleListOf_def member_def exampleBody_def exampleErrorBody_def)

lemma example_fetch_with: "fetch (exampleWorldWith r) u = r"
  by (simp add: exampleWorldWith_def)

lemma example_list_truthy: "truthy exampleList"
  by (simp add: exampleList_def)

theorem client_degrades_to_empty_witness:
  "fst (getOHLCV (exampleWorldWith Rejected) ''solana'' ''pool1'' ''hour'' 1 1000) = JArr []
   \<and> fst (getOHLCV (exampleWorldWith (Response 200 None)) ''solana'' ''pool1'' ''hour'' 1 1000)
       = JArr []
   \<and> fst (getOHLCV (exampleWorldWith (Response 404 (Some exampleErrorBody)))
            ''solana'' ''pool1'' ''hour'' 1 1000) = JArr []
   \<and> fst (getOHLCV (exampleWorldWith (Response 500 (Some exampleBody)))
            ''solana'' ''pool1'' ''hour'' 1 1000) = exampleList
   \<and> console (snd (getOHLCV (exampleWorldWith (Response 200 None))
            ''solana'' ''pool1'' ''hour'' 1 1000)) = [(''GeckoTerminal OHLCV error:'', SyntaxError)]"
proof -
  have e: "getOHLCV_try (fetch (exampleWorldWith (Response 200 None))
             (ohlcvUrl ''solana'' ''pool1'' ''hour'' 1 1000)) = Inl SyntaxError"
    by (simp add: example_fetch_with getOHLCV_try_def)
  from client_degrades_to_empty[of "exampleWorldWith Rejected" "''solana''" "''pool1''" "''hour''" 1 1000]
    client_degrades_to_empty[of "exampleWorldWith (Response 200 None)" "''solana''" "''pool1''"
      "''hour''" 1 1000 200 _ _ SyntaxError]
    client_degrades_to_empty[of "exampleWorldWith (Response 404 (Some exampleErrorBody))"
      "''solana''" "''pool1''" "''hour''" 1 1000 404 exampleErrorBody]
    client_degrades_to_empty[of "exampleWorldWith (Response 500 (Some exampleBody))"
      "''solana''" "''pool1''" "''hour''" 1 1000 500 exampleBody exampleList]
    e
  show ?thesis
    by (simp add: example_fetch_with example_candleListOf example_list_truthy
        exampleWorldWith_def exampleWorld_def)
qed

text \<open>
  Claim C7, as the code has it. For a fetch that resolves with a JSON body holding a
  truthy candle list, the client returns that list as it is: every candle is still the
  positional array of the provider, and nothing is mapped to named fields.
\<close>

theorem client_returns_raw_list:
  assumes "fetch w (ohlcvUrl n p tf ag lmt) = Response st (Some body)"
    and "candleListOf body = Some l" and "truthy l"
  shows "fst (getOHLCV w n p tf ag lmt) = l"
proof -
  from assms(2) have "body \<noteq> JNull" by (auto simp: candleListOf_def member_def)
  with assms show ?thesis by (simp add: getOHLCV_fst getOHLCV_try_body)
qed

theorem client_returns_raw_list_witness:
  "fst (getOHLCV exampleWorld ''solana'' ''pool1'' ''hour'' 1 1000) = exampleList"
proof -
  have f: "fetch exampleWorld (ohlcvUrl ''solana'' ''pool1'' ''hour'' 1 1000)
             = Response 200 (Some exampleBody)"
    by (simp add: exampleWorld_def)
  from client_returns_raw_list[OF f example_candleListOf(1) example_list_truthy]
  show ?thesis .
qed

text \<open>
  The elements the client returns for the example response are not candles with named
  fields.
\<close>

theorem raw_arrays_not_canonical_counterexample:
  "\<not> list_all spec_canonicalCandle
       (elements (fst (getOHLCV exampleWorld ''solana'' ''pool1'' ''hour'' 1 1000)))"
  by (simp add: example_fetched exampleList_def elements_def exampleCandles_def
      spec_canonicalCandle_def member_def)

text \<open>
  Claim C8, as the code has it. The window starts at the buy timestamp in milliseconds.
  It ends at the sell timestamp in milliseconds when a non-empty sell timestamp is
  recorded, and at the current instant when none is, whatever the status or the sell
  price of the trade.
\<close>

theorem window_bounds:
  "buyTime w t = dateGetTime w (buyTimestamp t)
   \<and> (sellTimestamp t = Some s \<and> s \<noteq> [] \<longrightarrow> sellTime w t = dateGetTime w s)
   \<and> (sellTimestamp t = None \<or> sellTimestamp t = Some [] \<longrightarrow> sellTime w t = dateNow w)"
  by (auto simp: buyTime_def sellTime_def)

text \<open>
  An open trade (no sell price) with a sell time entered: its window does not end at the
  current instant.
\<close>

theorem open_trade_with_sell_time_counterexample:
  "\<not> (status exampleOpenTrade = ''open''
        \<longrightarrow> sellTime exampleWorld exampleOpenTrade = dateNow exampleWorld)"
  by (simp add: exampleOpenTrade_def exampleTrade_def sellTime_def exampleWorld_def
      exampleGetTime_def)

lemma example_open_trade_from_form:
  "handleSubmit exampleParseFloat exampleWorld ''2024-01-02T00:00:00.000Z'' (Some exampleToken)
     (exampleForm\<lparr>form_sellPrice := []\<rparr>) = Some exampleOpenTrade"
  by (simp add: handleSubmit_def exampleParseFloat_def exampleWorld_def exampleToken_def
      exampleForm_def exampleTrade_def exampleOpenTrade_def)

theorem window_bounds_witness:
  "buyTime exampleWorld exampleTrade = Fin 1704067200000
   \<and> sellTime exampleWorld exampleTrade = Fin 1704078000000
   \<and> status exampleOpenTrade = ''open''
   \<and> sellTime exampleWorld exampleOpenTrade = Fin 1704078000000
   \<and> status (exampleTrade\<lparr>sellTimestamp := None\<rparr>) = ''closed''
   \<and> sellTime exampleWorld (exampleTrade\<lparr>sellTimestamp := None\<rparr>) = Fin 1704153600000"
  using window_bounds[of exampleWorld exampleTrade "''2024-01-01T03:00''"]
    window_bounds[of exampleWorld exampleOpenTrade "''2024-01-01T03:00''"]
    window_bounds[of exampleWorld "exampleTrade\<lparr>sellTimestamp := None\<rparr>"]
  by (simp add: exampleTrade_def exampleOpenTrade_def exampleWorld_def exampleGetTime_def)

lemma scanCandle_positional:
  assumes "(idx c 0, idx c 2, idx c 3) = (idx c' 0, idx c' 2, idx c' 3)"
  shows "scanCandle st c = scanCandle st c'"
  using assms by (simp add: scanCandle_def)

lemma foldl_scanCandle_positional:
  "map (\<lambda>c. (idx c 0, idx c 2, idx c 3)) cs = map (\<lambda>c. (idx c 0, idx c 2, idx c 3)) cs'
     \<Longrightarrow> foldl scanCandle st cs = foldl scanCandle st cs'"
proof (induction cs arbitrary: cs' st)
  case Nil
  then show ?case by simp
next
  case (Cons x xs)
  then obtain y ys where ys: "cs' = y # ys" by (cases cs') auto
  with Cons.prems have k: "(idx x 0, idx x 2, idx x 3) = (idx y 0, idx y 2, idx y 3)"
    and r: "map (\<lambda>c. (idx c 0, idx c 2, idx c 3)) xs = map (\<lambda>c. (idx c 0, idx c 2, idx c 3)) ys"
    by simp_all
  show ?case
    unfolding ys using Cons.IH[OF r] scanCandle_positional[OF k] by simp
qed

lemma relevantCandles_positional:
  "map (\<lambda>c. (idx c 0, idx c 2, idx c 3)) cs = map (\<lambda>c. (idx c 0, idx c 2, idx c 3)) cs'
     \<Longrightarrow> map (\<lambda>c. (idx c 0, idx c 2, idx c 3)) (relevantCandles w t cs)
         = map (\<lambda>c. (idx c 0, idx c 2, idx c 3)) (relevantCandles w t cs')"
proof (induction cs arbitrary: cs')
  case Nil
  then show ?case by (simp add: relevantCandles_def)
next
  case (Cons x xs)
  then obtain y ys where ys: "cs' = y # ys" by (cases cs') auto
  with Cons.prems have k: "idx x 0 = idx y 0" "idx x 2 = idx y 2" "idx x 3 = idx y 3"
    and r: "map (\<lambda>c. (idx c 0, idx c 2, idx c 3)) xs = map (\<lambda>c. (idx c 0, idx c 2, idx c 3)) ys"
    by simp_all
  from Cons.IH[OF r] k show ?case
    unfolding ys by (simp add: relevantCandles_def candleTime_def)
qed

text \<open>
  The analyzer reads a candle by position only: two series that agree on the entries 0
  (timestamp), 2 (high) and 3 (low) of every candle give the same result.
\<close>

lemma analyzeCandles_positional:
  assumes "map (\<lambda>c. (idx c 0, idx c 2, idx c 3)) cs = map (\<lambda>c. (idx c 0, idx c 2, idx c 3)) cs'"
  shows "analyzeCandles w t cs = analyzeCandles w t cs'"
proof -
  let ?r = "relevantCandles w t cs" and ?r' = "relevantCandles w t cs'"
  have m: "map (\<lambda>c. (idx c 0, idx c 2, idx c 3)) ?r = map (\<lambda>c. (idx c 0, idx c 2, idx c 3)) ?r'"
    using assms by (rule relevantCandles_positional)
  then have s: "scanCandles ?r = scanCandles ?r'"
    unfolding scanCandles_def by (rule foldl_scanCandle_positional)
  from m have l: "length ?r = length ?r'" by (rule map_eq_imp_length_eq)
  then have e: "(?r = []) = (?r' = [])" by (metis length_0_conv)
  from assms have "length cs = length cs'" by (rule map_eq_imp_length_eq)
  then have e0: "(cs = []) = (cs' = [])" by (metis length_0_conv)
  show ?thesis
    unfolding analyzeCandles_def Let_def s l e e0 ..
qed

text \<open>
  The two gates of the derived metrics, for every summary the analyzer builds.
\<close>

lemma derived_gates:
  assumes "analysis (analyzeCandles w t ohlcvData) = Some a"
  shows "pnlPercent a =
           (case sellPrice t of
              None \<Rightarrow> None
            | Some sp \<Rightarrow> if sp = Fin 0 \<or> sp = NaN then None
                         else Some (percentOfBuy sp (buyPrice t)))"
    and "capturedPercent a =
           (case pnlPercent a of
              None \<Rightarrow> None
            | Some p \<Rightarrow> if js_gt (maxGainPercent a) (Fin 0)
                        then Some (js_mul (js_div p (maxGainPercent a)) (Fin 100)) else None)"
proof -
  have ne: "relevantCandles w t ohlcvData \<noteq> []" using assms by (rule analysis_Some_window)
  from analysis_of_nonempty_window[OF ne] assms
  show "pnlPercent a =
           (case sellPrice t of
              None \<Rightarrow> None
            | Some sp \<Rightarrow> if sp = Fin 0 \<or> sp = NaN then None
                         else Some (percentOfBuy sp (buyPrice t)))"
    by (auto simp: pnlOf_def truthyNum_def split: option.splits)
  from analysis_of_nonempty_window[OF ne] assms
  have "capturedPercent a = capturedOf (pnlPercent a) (maxGainPercent a)" by auto
  then show "capturedPercent a =
           (case pnlPercent a of
              None \<Rightarrow> None
            | Some p \<Rightarrow> if js_gt (maxGainPercent a) (Fin 0)
                        then Some (js_mul (js_div p (maxGainPercent a)) (Fin 100)) else None)"
    by (simp only: capturedOf_def)
qed

text \<open>
  A candle without high and low passes the filter and never wins a comparison of the
  scan: the summary returned holds both sentinels and two null timestamps.
\<close>

theorem short_candle_sentinels_counterexample:
  "fst (analyzeTradePerformance (exampleWorldWith (Response 200 (Some exampleShortBody)))
         exampleTrade) =
     Returned (exampleTrade\<lparr>analysis := Some
       \<lparr>minPrice = Infinity, maxPrice = NegInfinity,
        minTimestamp = None, maxTimestamp = None,
        pnlPercent = Some (Fin 50), maxGainPercent = NegInfinity,
        maxDrawdownPercent = Infinity, capturedPercent = None,
        candleCount = 1\<rparr>\<rparr>)
   \<and> analysis (analyzeCandles exampleWorld exampleTrade exampleShortSeries) \<noteq> None
   \<and> map_option minPrice (analysis (analyzeCandles exampleWorld exampleTrade exampleShortSeries))
       = Some Infinity
   \<and> map_option minTimestamp
        (analysis (analyzeCandles exampleWorld exampleTrade exampleShortSeries)) = Some None
   \<and> map_option maxPrice (analysis (analyzeCandles exampleWorld exampleTrade exampleShortSeries))
       = Some NegInfinity
   \<and> map_option maxTimestamp
        (analysis (analyzeCandles exampleWorld exampleTrade exampleShortSeries)) = Some None"
proof -
  have r: "relevantCandles exampleWorld exampleTrade exampleShortSeries = exampleShortSeries"
    by (simp add: relevantCandles_def exampleShortSeries_def candleTime_def idx_def
        buyTime_def sellTime_def exampleWorld_def exampleTrade_def exampleGetTime_def
        js_ge_def js_le_def)
  have a: "analyzeCandles exampleWorld exampleTrade exampleShortSeries =
     exampleTrade\<lparr>analysis := Some
       \<lparr>minPrice = Infinity, maxPrice = NegInfinity,
        minTimestamp = None, maxTimestamp = None,
        pnlPercent = Some (Fin 50), maxGainPercent = NegInfinity,
        maxDrawdownPercent = Infinity, capturedPercent = None,
        candleCount = 1\<rparr>\<rparr>"
    unfolding analyzeCandles_def r
    by (simp add: exampleShortSeries_def scanCandles_def scanCandle_def scanInit_def idx_def
        Let_def js_gt_def pnlOf_def capturedOf_def percentOfBuy_def truthyNum_def
        exampleTrade_def inf_of_def)
  have w: "dateNow (exampleWorldWith (Response 200 (Some exampleShortBody))) = dateNow exampleWorld"
    "dateGetTime (exampleWorldWith (Response 200 (Some exampleShortBody)))
       = dateGetTime exampleWorld"
    by (simp_all add: exampleWorldWith_def)
  have f: "fst (getOHLCV (exampleWorldWith (Response 200 (Some exampleShortBody)))
             ''solana'' (poolAddress exampleTrade) ''hour'' 1 1000)
           = JArr [JArr [JNum (Fin 1704067200)]]"
    by (simp add: getOHLCV_fst getOHLCV_try_body example_fetch_with exampleShortBody_def
        candleListOf_def member_def)
  have c: "asCandles [JArr [JNum (Fin 1704067200)]] = Some exampleShortSeries"
    by (simp add: asCandles_def asCandle_def asNum_def exampleShortSeries_def)
  have "fst (analyzeTradePerformance (exampleWorldWith (Response 200 (Some exampleShortBody)))
         exampleTrade) = Returned (analyzeCandles exampleWorld exampleTrade exampleShortSeries)"
    unfolding analyzeTradePerformance_fst f
    by (simp add: analyzeFetched_def c analyzeCandles_frame[OF w])
  then show ?thesis by (simp add: a)
qed

end
